theory Spec2Isabelle
  imports Main "HOL-Library.Sublist" "HOL-Library.Multiset"
begin

section \<open>Values shared by the entry point and the stack\<close>

text \<open>
  The program is a declaration script: it reads the process environment, registers a tag
  aspect, and runs the constructor of \<open>AwsEfsCreatorStack\<close>, which declares constructs
  in its scope. A run either throws (or exits) or leaves the declared constructs behind.
  Every throw and every exit of the program is a value \<open>Inl e\<close> of type \<open>error + 'a\<close>.
\<close>

datatype error =
    ConfigurationMissingError string
  | InvalidModeError string "string list"
  | NetworkLookupError string

text \<open>\<open>process.env\<close>: a name is either unset (\<open>undefined\<close>) or bound to a string.\<close>

type_synonym processEnv = "string \<rightharpoonup> string"

text \<open>
  A template literal \<^verbatim>\<open>`${v}`\<close> converts its operand to a string; the operand of the
  entry point's literals is a string or \<open>undefined\<close>, and \<open>undefined\<close> is rendered as the
  nine letters \<open>undefined\<close>.
\<close>

definition templateString :: "string option \<Rightarrow> string" where
  "templateString v = (case v of None \<Rightarrow> ''undefined'' | Some s \<Rightarrow> s)"

text \<open>
  The provisioning engine keeps the id of a construct with every path separator \<open>/\<close>
  rewritten to \<open>--\<close>; every other character stays.
\<close>

definition sanitizeId :: "string \<Rightarrow> string" where
  "sanitizeId s = concat (map (\<lambda>c. if c = CHR ''/'' then ''--'' else [c]) s)"

section \<open>Mode parsers (utils/efs-mode-parsing)\<close>

datatype PerformanceMode = GENERAL_PURPOSE | MAX_IO

datatype ThroughputMode = BURSTING | PROVISIONED

definition performanceModeNames :: "string list" where
  "performanceModeNames = [''generalPurpose'', ''maxIO'']"

definition throughputModeNames :: "string list" where
  "throughputModeNames = [''bursting'', ''provisioned'']"

text \<open>
  Modelled from the spec: \<open>parsePerformanceMode\<close> of utils/efs-mode-parsing, which the
  stack imports and whose source is missing. The raw string is compared exactly with
  the two literals of the performance enumeration (general-purpose and max-I/O); any other
  string fails with an \<open>InvalidModeError\<close> that carries the raw value and the accepted
  values. There is no default.
\<close>

definition parsePerformanceMode :: "string \<Rightarrow> error + PerformanceMode" where
  "parsePerformanceMode raw =
     (if raw = ''generalPurpose'' then Inr GENERAL_PURPOSE
      else if raw = ''maxIO'' then Inr MAX_IO
      else Inl (InvalidModeError raw performanceModeNames))"

text \<open>
  Modelled from the spec: \<open>parseThroughputMode\<close> of utils/efs-mode-parsing, likewise
  missing. The accepted literals are those of the two throughput members in scope, bursting
  and provisioned.
\<close>

definition parseThroughputMode :: "string \<Rightarrow> error + ThroughputMode" where
  "parseThroughputMode raw =
     (if raw = ''bursting'' then Inr BURSTING
      else if raw = ''provisioned'' then Inr PROVISIONED
      else Inl (InvalidModeError raw throughputModeNames))"

section \<open>The stack (lib/aws-efs-creator-stack)\<close>

text \<open>
  Modelled from the spec: the declaration of \<open>AwsEfsCreatorStackProps\<close>
  (lib/AwsEfsCreatorStackProps), whose source is missing. The record has the fields of the
  spec's StackConfiguration, under the names the constructor and the entry point use; the
  deployment environment is the string the constructor compares with \<open>production\<close>, and
  the two mode selectors are raw strings.
\<close>

record AwsEfsCreatorStackProps =
  resourcePrefix :: string
  deployEnvironment :: string
  vpcId :: string
  deployRegion :: string
  account :: "string option"
  performanceMode :: string
  throughputMode :: string

text \<open>
  Enumerations and principals of the provisioning engine, with the members the constructor
  names and some of their siblings.
\<close>

datatype RemovalPolicy = DESTROY | RETAIN | SNAPSHOT

datatype LifecyclePolicy =
  AFTER_7_DAYS | AFTER_14_DAYS | AFTER_30_DAYS | AFTER_60_DAYS | AFTER_90_DAYS

datatype Principal = AnyPrincipal | AccountPrincipal string | ArnPrincipal string

text \<open>The handle of a looked-up network: the construct id, the id asked for, the answer.\<close>

record IVpc =
  vpc_id :: string
  vpc_vpcId :: string
  vpc_handle :: string

text \<open>
  A security group as declared: its construct id, the three properties the constructor
  passes, and the removal policy, which is unset until \<open>applyRemovalPolicy\<close> is called.
\<close>

record SecurityGroup =
  sg_id :: string
  securityGroupName :: string
  sg_vpc :: IVpc
  allowAllOutbound :: bool
  sg_removalPolicy :: "RemovalPolicy option"

text \<open>
  A condition block as a list of (operator, key, value) entries. The statements of a policy
  are unordered, so a policy is a multiset of statements.
\<close>

record PolicyStatement =
  actions :: "string list"
  principals :: "Principal list"
  conditions :: "(string \<times> string \<times> string) list"

record FileSystem =
  fs_id :: string
  fileSystemName :: string
  fs_vpc :: IVpc
  fs_removalPolicy :: RemovalPolicy
  securityGroup :: SecurityGroup
  encrypted :: bool
  fs_performanceMode :: PerformanceMode
  allowAnonymousAccess :: bool
  fs_throughputMode :: ThroughputMode
  lifecyclePolicy :: LifecyclePolicy
  resourcePolicy :: "PolicyStatement multiset"

text \<open>
  The value of an output is a reference to an attribute of a declared construct, resolved
  by the provisioning engine at deployment: the construct is named by its id.
\<close>

datatype Token = SecurityGroupId string | FileSystemId string

record CfnOutput =
  out_id :: string
  out_value :: Token
  exportName :: string
  description :: string

datatype Construct =
    VpcLookup IVpc
  | SecurityGroupC SecurityGroup
  | FileSystemC FileSystem
  | CfnOutputC CfnOutput

text \<open>\<open>efsSG.applyRemovalPolicy(removalPolicy)\<close> and \<open>addToResourcePolicy(statement)\<close>.\<close>

definition applyRemovalPolicy :: "RemovalPolicy \<Rightarrow> SecurityGroup \<Rightarrow> SecurityGroup" where
  "applyRemovalPolicy p sg = sg\<lparr>sg_removalPolicy := Some p\<rparr>"

definition addToResourcePolicy :: "PolicyStatement \<Rightarrow> FileSystem \<Rightarrow> FileSystem" where
  "addToResourcePolicy s fs = fs\<lparr>resourcePolicy := add_mset s (resourcePolicy fs)\<rparr>"

text \<open>
  The engine's part of \<open>new efs.FileSystem\<close>, as far as the policy goes: a file system
  declared with anonymous access disallowed gets a statement of the engine's own, which
  allows writing and root access to any principal that comes through a mount target.
\<close>

definition anonymousAccessStatement :: PolicyStatement where
  "anonymousAccessStatement =
     \<lparr>actions = [''elasticfilesystem:ClientWrite'', ''elasticfilesystem:ClientRootAccess''],
      principals = [AnyPrincipal],
      conditions = [(''Bool'', ''elasticfilesystem:AccessedViaMountTarget'', ''true'')]\<rparr>"

definition newFileSystem :: "FileSystem \<Rightarrow> FileSystem" where
  "newFileSystem fs =
     (if allowAnonymousAccess fs then fs else addToResourcePolicy anonymousAccessStatement fs)"

text \<open>
  A run of the constructor: the constructs it has declared in the stack's scope, in the
  order of their declaration, and the exception it threw, if it threw one. A declaration
  made before the throw stays made.
\<close>

record StackRun =
  constructs :: "Construct list"
  thrown :: "error option"

text \<open>
  The constructor of \<open>AwsEfsCreatorStack\<close>, after the call of the base constructor, which
  is the provisioning engine's. The network lookup belongs to the engine too and is a
  parameter: it answers with a handle or with the engine's own error, which is passed on
  as it is.
\<close>

definition AwsEfsCreatorStack ::
  "(string \<Rightarrow> error + string) \<Rightarrow> AwsEfsCreatorStackProps \<Rightarrow> StackRun" where
  "AwsEfsCreatorStack fromLookup props =
     (case fromLookup (vpcId props) of
        Inl e \<Rightarrow> \<lparr>constructs = [], thrown = Some e\<rparr>
      | Inr h \<Rightarrow>
          let vpc = \<lparr>vpc_id = sanitizeId (resourcePrefix props @ ''-VPC''),
                     vpc_vpcId = vpcId props, vpc_handle = h\<rparr>;
              removalPolicy =
                (if deployEnvironment props = ''production'' then RETAIN else DESTROY);
              efsSG = applyRemovalPolicy removalPolicy
                \<lparr>sg_id = sanitizeId (resourcePrefix props @ ''-efsSG''),
                 securityGroupName = resourcePrefix props @ ''-efsSG'',
                 sg_vpc = vpc,
                 allowAllOutbound = True,
                 sg_removalPolicy = None\<rparr>
          in (case parsePerformanceMode (performanceMode props) of
                Inl e \<Rightarrow>
                  \<lparr>constructs = [VpcLookup vpc, SecurityGroupC efsSG], thrown = Some e\<rparr>
              | Inr pm \<Rightarrow>
                  (case parseThroughputMode (throughputMode props) of
                     Inl e \<Rightarrow>
                       \<lparr>constructs = [VpcLookup vpc, SecurityGroupC efsSG], thrown = Some e\<rparr>
                   | Inr tm \<Rightarrow>
                       let efsFileSystem = addToResourcePolicy
                             \<lparr>actions = [''elasticfilesystem:ClientMount''],
                              principals = [AnyPrincipal],
                              conditions =
                                [(''Bool'', ''elasticfilesystem:AccessedViaMountTarget'', ''true'')]\<rparr>
                             (newFileSystem
                               \<lparr>fs_id = sanitizeId (resourcePrefix props @ ''-efsFileSystem''),
                                fileSystemName = resourcePrefix props @ ''-efsFileSystem'',
                                fs_vpc = vpc,
                                fs_removalPolicy = removalPolicy,
                                securityGroup = efsSG,
                                encrypted = True,
                                fs_performanceMode = pm,
                                allowAnonymousAccess = False,
                                fs_throughputMode = tm,
                                lifecyclePolicy = AFTER_90_DAYS,
                                resourcePolicy = {#}\<rparr>)
                       in \<lparr>constructs =
                             [VpcLookup vpc,
                              SecurityGroupC efsSG,
                              FileSystemC efsFileSystem,
                              CfnOutputC
                                \<lparr>out_id = sanitizeId ''efsSG'',
                                 out_value = SecurityGroupId (sg_id efsSG),
                                 exportName = resourcePrefix props @ ''-efsSG'',
                                 description =
                                   ''The security group id for the EFS file system.''\<rparr>,
                              CfnOutputC
                                \<lparr>out_id = sanitizeId ''efsFileSystemId'',
                                 out_value = FileSystemId (fs_id efsFileSystem),
                                 exportName = resourcePrefix props @ ''-efsFileSystemId'',
                                 description =
                                   ''The file system id for the EFS file system.''\<rparr>],
                           thrown = None\<rparr>)))"

subsection \<open>Reading a declared tree\<close>

fun constructId :: "Construct \<Rightarrow> string" where
  "constructId (VpcLookup v) = vpc_id v"
| "constructId (SecurityGroupC g) = sg_id g"
| "constructId (FileSystemC f) = fs_id f"
| "constructId (CfnOutputC out) = out_id out"

fun securityGroupsOf :: "Construct list \<Rightarrow> SecurityGroup list" where
  "securityGroupsOf [] = []"
| "securityGroupsOf (SecurityGroupC g # cs) = g # securityGroupsOf cs"
| "securityGroupsOf (c # cs) = securityGroupsOf cs"

fun fileSystemsOf :: "Construct list \<Rightarrow> FileSystem list" where
  "fileSystemsOf [] = []"
| "fileSystemsOf (FileSystemC f # cs) = f # fileSystemsOf cs"
| "fileSystemsOf (c # cs) = fileSystemsOf cs"

fun outputsOf :: "Construct list \<Rightarrow> CfnOutput list" where
  "outputsOf [] = []"
| "outputsOf (CfnOutputC out # cs) = out # outputsOf cs"
| "outputsOf (c # cs) = outputsOf cs"

fun vpcLookupsOf :: "Construct list \<Rightarrow> IVpc list" where
  "vpcLookupsOf [] = []"
| "vpcLookupsOf (VpcLookup v # cs) = v # vpcLookupsOf cs"
| "vpcLookupsOf (c # cs) = vpcLookupsOf cs"

section \<open>Environment validator (utils/check-environment-variable)\<close>

text \<open>
  Modelled from the spec: \<open>checkEnvVariables\<close> of utils/check-environment-variable, which
  the entry point calls and whose source is missing. The names are taken
  in the order of the call; the first one that is unset or bound to the empty string halts
  the process (a non-zero exit, reported with that name); with no names left the check
  returns.
\<close>

fun checkEnvVariables :: "processEnv \<Rightarrow> string list \<Rightarrow> error + unit" where
  "checkEnvVariables env [] = Inr ()"
| "checkEnvVariables env (n # ns) =
     (case env n of
        None \<Rightarrow> Inl (ConfigurationMissingError n)
      | Some v \<Rightarrow>
          if v = [] then Inl (ConfigurationMissingError n)
          else checkEnvVariables env ns)"

section \<open>Tag aspect (utils/apply-tag)\<close>

text \<open>
  Modelled from the spec: the class \<open>ApplyTags\<close> of utils/apply-tag, which the entry
  point registers and whose source is missing. A tag set binds the three keys
  environment, project and owner. A node of the declaration tree either supports tagging,
  and then carries labels, or does not. Visiting a node that supports tagging applies every
  entry of the tag set as a label, a later value for a key replacing an earlier one;
  visiting any other node leaves it as it is.
\<close>

record TagSet =
  environment :: string
  project :: string
  owner :: string

datatype Node = Taggable "string \<rightharpoonup> string" | NotTaggable

definition tagEntries :: "TagSet \<Rightarrow> (string \<times> string) list" where
  "tagEntries ts =
     [(''environment'', environment ts), (''project'', project ts), (''owner'', owner ts)]"

definition applyTag :: "string \<times> string \<Rightarrow> (string \<rightharpoonup> string) \<Rightarrow> (string \<rightharpoonup> string)" where
  "applyTag kv labels = labels(fst kv \<mapsto> snd kv)"

definition visit :: "TagSet \<Rightarrow> Node \<Rightarrow> Node" where
  "visit ts node =
     (case node of
        Taggable labels \<Rightarrow> Taggable (fold applyTag (tagEntries ts) labels)
      | NotTaggable \<Rightarrow> NotTaggable)"

text \<open>The aspect, registered at the root, visits every node of the tree.\<close>

definition applyAspect :: "TagSet \<Rightarrow> Node list \<Rightarrow> Node list" where
  "applyAspect ts nodes = map (visit ts) nodes"

section \<open>The entry point (bin/aws-efs-creator)\<close>

text \<open>
  The entry point reads \<open>process.env\<close> after \<open>dotenv.config()\<close> has loaded the file
  \<open>.env\<close> into it; the environment given to \<open>main\<close> is that one. A value read from it is
  a string or \<open>undefined\<close>: the non-null assertions of the source are erased when the
  program is compiled and check nothing when it runs.
\<close>

record ApplyTagsArgs =
  tag_environment :: "string option"
  tag_project :: "string option"
  tag_owner :: "string option"

text \<open>
  The object passed to the constructor of the stack: the fields of \<open>stackProps\<close>, then
  \<open>stackName\<close> and \<open>description\<close>. A field copied from the environment holds what the
  environment held, a string or \<open>undefined\<close>; the three fields built by a template literal
  are strings. The entry point sets no mode selector.
\<close>

record StackArgs =
  arg_resourcePrefix :: string
  arg_env_region :: "string option"
  arg_env_account :: "string option"
  arg_deployRegion :: "string option"
  arg_deployEnvironment :: "string option"
  arg_appName :: "string option"
  arg_vpcId :: "string option"
  arg_stackName :: string
  arg_description :: string

text \<open>
  What the run has set up when it reaches \<open>app.synth()\<close>: the aspects registered on the app
  and the stacks instantiated in it, each with its construct id. The network lookup and
  every resource declaration happen inside the constructor of a stack listed here.
\<close>

record App =
  aspects :: "ApplyTagsArgs list"
  stacks :: "(string \<times> StackArgs) list"

definition main :: "processEnv \<Rightarrow> error + App" where
  "main env =
     (let account = env ''CDK_DEFAULT_ACCOUNT'';
          region = env ''CDK_DEFAULT_REGION'';
          cdkRegion = env ''CDK_DEPLOY_REGION'';
          deployEnvironment = env ''ENVIRONMENT''
      in (case checkEnvVariables env [''APP_NAME'', ''OWNER'', ''VPC_ID''] of
            Inl e \<Rightarrow> Inl e
          | Inr u \<Rightarrow>
              let appName = env ''APP_NAME'';
                  owner = env ''OWNER'';
                  appAspects =
                    [\<lparr>tag_environment = deployEnvironment,
                      tag_project = appName,
                      tag_owner = owner\<rparr>]
              in Inr \<lparr>aspects = appAspects,
                      stacks =
                        [(''AwsEfsCreatorStack'',
                          \<lparr>arg_resourcePrefix =
                             templateString appName @ ''-'' @ templateString deployEnvironment,
                           arg_env_region = cdkRegion,
                           arg_env_account = account,
                           arg_deployRegion = cdkRegion,
                           arg_deployEnvironment = deployEnvironment,
                           arg_appName = appName,
                           arg_vpcId = env ''VPC_ID'',
                           arg_stackName =
                             templateString appName @ ''-'' @ templateString deployEnvironment
                               @ ''-'' @ templateString cdkRegion @ ''-AwsEfsCreatorStack'',
                           arg_description =
                             ''AwsEfsCreatorStack for '' @ templateString appName @ '' in ''
                               @ templateString cdkRegion @ '' ''
                               @ templateString deployEnvironment @ ''.''\<rparr>)]\<rparr>))"

section \<open>The end-to-end example of the specification\<close>

definition resolveAll :: "string \<Rightarrow> error + string" where
  "resolveAll v = Inr v"

definition acmeProduction :: AwsEfsCreatorStackProps where
  "acmeProduction =
     \<lparr>resourcePrefix = ''acme-production'',
      deployEnvironment = ''production'',
      vpcId = ''vpc-123'',
      deployRegion = ''eu-west-1'',
      account = Some ''123456789012'',
      performanceMode = ''generalPurpose'',
      throughputMode = ''bursting''\<rparr>"

text \<open>
  A configuration for another environment, one whose prefix holds a path separator, and one
  with a mode that no parser accepts.
\<close>

definition acmeStaging :: AwsEfsCreatorStackProps where
  "acmeStaging =
     acmeProduction\<lparr>resourcePrefix := ''acme-staging'', deployEnvironment := ''staging''\<rparr>"

definition acmeSlash :: AwsEfsCreatorStackProps where
  "acmeSlash = acmeProduction\<lparr>resourcePrefix := ''acme/production''\<rparr>"

definition acmeTurbo :: AwsEfsCreatorStackProps where
  "acmeTurbo = acmeProduction\<lparr>performanceMode := ''turbo''\<rparr>"

definition acmeEnv :: processEnv where
  "acmeEnv =
     [''APP_NAME'' \<mapsto> ''acme'', ''OWNER'' \<mapsto> ''ops'', ''VPC_ID'' \<mapsto> ''vpc-123'',
      ''CDK_DEPLOY_REGION'' \<mapsto> ''eu-west-1'', ''ENVIRONMENT'' \<mapsto> ''production'']"

section \<open>Properties of the environment validator and the entry point\<close>

lemma checkEnvVariables_ok:
  "checkEnvVariables env ns = Inr u \<longleftrightarrow> (\<forall>n \<in> set ns. \<exists>v. env n = Some v \<and> v \<noteq> [])"
  by (induction ns) (auto split: option.splits)

lemma checkEnvVariables_first_missing:
  assumes "\<forall>n \<in> set ms. \<exists>v. env n = Some v \<and> v \<noteq> []"
    and "env n = None \<or> env n = Some []"
  shows "checkEnvVariables env (ms @ n # ns) = Inl (ConfigurationMissingError n)"
  using assms by (induction ms) (auto split: option.splits)

text \<open>
  The run halts before the stack is instantiated exactly when one of the three names
  handed to the validator is unset or empty.
\<close>

lemma main_halts_iff:
  "(\<exists>e. main env = Inl e) \<longleftrightarrow>
     (\<exists>n \<in> {''APP_NAME'', ''OWNER'', ''VPC_ID''}. env n = None \<or> env n = Some [])"
  by (auto simp: main_def Let_def split: option.splits)

text \<open>
  C1. Every required environment input (APP_NAME, OWNER, VPC_ID, CDK_DEPLOY_REGION,
  ENVIRONMENT) is checked before anything is declared, and the run halts on the first
  missing one. The entry point hands only APP_NAME, OWNER and VPC_ID to the validator:
  with ENVIRONMENT unset and the other four names set, the validator does not halt the
  run. It registers
  the tag aspect with an undefined environment and instantiates the stack under the
  resource prefix \<open>acme-undefined\<close>.
\<close>

theorem unset_environment_not_checked:
  "main [''APP_NAME'' \<mapsto> ''acme'', ''OWNER'' \<mapsto> ''ops'', ''VPC_ID'' \<mapsto> ''vpc-123'',
         ''CDK_DEPLOY_REGION'' \<mapsto> ''eu-west-1''] =
     Inr \<lparr>aspects =
            [\<lparr>tag_environment = None, tag_project = Some ''acme'', tag_owner = Some ''ops''\<rparr>],
          stacks =
            [(''AwsEfsCreatorStack'',
              \<lparr>arg_resourcePrefix = ''acme-undefined'',
               arg_env_region = Some ''eu-west-1'',
               arg_env_account = None,
               arg_deployRegion = Some ''eu-west-1'',
               arg_deployEnvironment = None,
               arg_appName = Some ''acme'',
               arg_vpcId = Some ''vpc-123'',
               arg_stackName = ''acme-undefined-eu-west-1-AwsEfsCreatorStack'',
               arg_description = ''AwsEfsCreatorStack for acme in eu-west-1 undefined.''\<rparr>)]\<rparr>"
  by (simp add: main_def templateString_def Let_def)

section \<open>Properties of the stack\<close>

lemma sanitizeId_append: "sanitizeId (s @ t) = sanitizeId s @ sanitizeId t"
  by (simp add: sanitizeId_def)

lemma sanitizeId_no_separator: "CHR ''/'' \<notin> set s \<Longrightarrow> sanitizeId s = s"
  by (induction s) (auto simp: sanitizeId_def)

lemma sanitizeId_literals:
  "sanitizeId ''-VPC'' = ''-VPC''"
  "sanitizeId ''-efsSG'' = ''-efsSG''"
  "sanitizeId ''-efsFileSystem'' = ''-efsFileSystem''"
  "sanitizeId ''efsSG'' = ''efsSG''"
  "sanitizeId ''efsFileSystemId'' = ''efsFileSystemId''"
  by (simp_all add: sanitizeId_def)

lemmas stack_defs =
  AwsEfsCreatorStack_def Let_def applyRemovalPolicy_def addToResourcePolicy_def
  newFileSystem_def sanitizeId_append sanitizeId_literals

text \<open>The constructor returns exactly when the lookup and both parsers succeed.\<close>

lemma stack_success:
  assumes "thrown (AwsEfsCreatorStack fromLookup props) = None"
  obtains h pm tm where
    "fromLookup (vpcId props) = Inr h"
    "parsePerformanceMode (performanceMode props) = Inr pm"
    "parseThroughputMode (throughputMode props) = Inr tm"
proof -
  obtain h where h: "fromLookup (vpcId props) = Inr h"
    using assms by (cases "fromLookup (vpcId props)") (simp_all add: AwsEfsCreatorStack_def)
  obtain pm where pm: "parsePerformanceMode (performanceMode props) = Inr pm"
    using assms h by (cases "parsePerformanceMode (performanceMode props)")
      (simp_all add: AwsEfsCreatorStack_def Let_def)
  obtain tm where tm: "parseThroughputMode (throughputMode props) = Inr tm"
    using assms h pm by (cases "parseThroughputMode (throughputMode props)")
      (simp_all add: AwsEfsCreatorStack_def Let_def)
  from h pm tm that show thesis by blast
qed

text \<open>
  A failure of the lookup or of a parser is thrown by the constructor as it is; the lookup
  fails before anything is declared, a parser after the lookup and the security group.
\<close>

lemma stack_failure:
  "fromLookup (vpcId props) = Inl e \<Longrightarrow>
     AwsEfsCreatorStack fromLookup props = \<lparr>constructs = [], thrown = Some e\<rparr>"
  "fromLookup (vpcId props) = Inr h \<Longrightarrow> parsePerformanceMode (performanceMode props) = Inl e
     \<Longrightarrow> thrown (AwsEfsCreatorStack fromLookup props) = Some e
       \<and> length (constructs (AwsEfsCreatorStack fromLookup props)) = 2"
  "fromLookup (vpcId props) = Inr h \<Longrightarrow> parsePerformanceMode (performanceMode props) = Inr pm
     \<Longrightarrow> parseThroughputMode (throughputMode props) = Inl e
     \<Longrightarrow> thrown (AwsEfsCreatorStack fromLookup props) = Some e
       \<and> length (constructs (AwsEfsCreatorStack fromLookup props)) = 2"
  by (simp_all add: stack_defs)

lemma acme_assembles:
  "thrown (AwsEfsCreatorStack resolveAll acmeProduction) = None"
  "thrown (AwsEfsCreatorStack resolveAll acmeStaging) = None"
  by (simp_all add: stack_defs resolveAll_def acmeProduction_def acmeStaging_def
      parsePerformanceMode_def parseThroughputMode_def)

lemma acme_resolves:
  "resolveAll (vpcId acmeProduction) = Inr ''vpc-123''"
  "resolveAll (vpcId acmeTurbo) = Inr ''vpc-123''"
  by (simp_all add: resolveAll_def acmeProduction_def acmeTurbo_def)

lemma stack_names:
  assumes "thrown (AwsEfsCreatorStack fromLookup props) = None"
  shows "map exportName (outputsOf (constructs (AwsEfsCreatorStack fromLookup props))) =
           [resourcePrefix props @ ''-efsSG'', resourcePrefix props @ ''-efsFileSystemId'']"
    and "map securityGroupName
           (securityGroupsOf (constructs (AwsEfsCreatorStack fromLookup props))) =
           [resourcePrefix props @ ''-efsSG'']"
    and "map fileSystemName (fileSystemsOf (constructs (AwsEfsCreatorStack fromLookup props))) =
           [resourcePrefix props @ ''-efsFileSystem'']"
proof -
  from assms obtain h pm tm where ok:
    "fromLookup (vpcId props) = Inr h"
    "parsePerformanceMode (performanceMode props) = Inr pm"
    "parseThroughputMode (throughputMode props) = Inr tm"
    by (rule stack_success)
  from ok show
    "map exportName (outputsOf (constructs (AwsEfsCreatorStack fromLookup props))) =
       [resourcePrefix props @ ''-efsSG'', resourcePrefix props @ ''-efsFileSystemId'']"
    "map securityGroupName
       (securityGroupsOf (constructs (AwsEfsCreatorStack fromLookup props))) =
       [resourcePrefix props @ ''-efsSG'']"
    "map fileSystemName (fileSystemsOf (constructs (AwsEfsCreatorStack fromLookup props))) =
       [resourcePrefix props @ ''-efsFileSystem'']"
    by (simp_all add: stack_defs)
qed

text \<open>
  C2. The removal policy is decided by the deployment environment alone. For every
  configuration, on every run of the constructor, whether it returns or throws, each
  security group and each file system declared (the only constructs that carry a removal
  policy) has \<open>RETAIN\<close> when the deployment environment is the string \<open>production\<close> and
  \<open>DESTROY\<close> for every other string; when the constructor returns there is one of each.
\<close>

theorem removal_policy_from_environment:
  "set (map sg_removalPolicy
          (securityGroupsOf (constructs (AwsEfsCreatorStack fromLookup props))))
     \<subseteq> {Some (if deployEnvironment props = ''production'' then RETAIN else DESTROY)}
   \<and> set (map fs_removalPolicy
          (fileSystemsOf (constructs (AwsEfsCreatorStack fromLookup props))))
     \<subseteq> {if deployEnvironment props = ''production'' then RETAIN else DESTROY}
   \<and> (thrown (AwsEfsCreatorStack fromLookup props) = None \<longrightarrow>
        map sg_removalPolicy
          (securityGroupsOf (constructs (AwsEfsCreatorStack fromLookup props))) =
          [Some (if deployEnvironment props = ''production'' then RETAIN else DESTROY)]
        \<and> map fs_removalPolicy
          (fileSystemsOf (constructs (AwsEfsCreatorStack fromLookup props))) =
          [if deployEnvironment props = ''production'' then RETAIN else DESTROY])"
proof (cases "fromLookup (vpcId props)")
  case (Inl e)
  then show ?thesis
    by (simp add: stack_defs)
next
  case h: (Inr h)
  show ?thesis
  proof (cases "parsePerformanceMode (performanceMode props)")
    case (Inl e)
    with h show ?thesis
      by (simp add: stack_defs)
  next
    case pm: (Inr pm)
    show ?thesis
    proof (cases "parseThroughputMode (throughputMode props)")
      case (Inl e)
      with h pm show ?thesis
        by (simp add: stack_defs)
    next
      case (Inr tm)
      with h pm show ?thesis
        by (simp add: stack_defs)
    qed
  qed
qed

theorem removal_policy_from_environment_witness:
  "map sg_removalPolicy
     (securityGroupsOf (constructs (AwsEfsCreatorStack resolveAll acmeProduction))) =
     [Some RETAIN]
   \<and> map fs_removalPolicy
     (fileSystemsOf (constructs (AwsEfsCreatorStack resolveAll acmeProduction))) = [RETAIN]
   \<and> map sg_removalPolicy
     (securityGroupsOf (constructs (AwsEfsCreatorStack resolveAll acmeStaging))) =
     [Some DESTROY]
   \<and> map fs_removalPolicy
     (fileSystemsOf (constructs (AwsEfsCreatorStack resolveAll acmeStaging))) = [DESTROY]"
  using removal_policy_from_environment [of resolveAll acmeProduction]
    removal_policy_from_environment [of resolveAll acmeStaging] acme_assembles
  by (simp add: acmeProduction_def acmeStaging_def)

text \<open>
  C3. Whenever the constructor returns, there is one file system, and it is declared with
  encryption at rest on, anonymous access off, the declared security group as its
  security group, the performance and throughput modes that the two parsers return for
  the raw strings of the configuration, the removal policy computed from the deployment
  environment, and the lifecycle policy of 90 days.
\<close>

theorem storage_resource_properties:
  assumes "thrown (AwsEfsCreatorStack fromLookup props) = None"
  shows "length (fileSystemsOf (constructs (AwsEfsCreatorStack fromLookup props))) = 1
       \<and> map encrypted (fileSystemsOf (constructs (AwsEfsCreatorStack fromLookup props))) = [True]
       \<and> map allowAnonymousAccess (fileSystemsOf (constructs (AwsEfsCreatorStack fromLookup props))) = [False]
       \<and> map securityGroup (fileSystemsOf (constructs (AwsEfsCreatorStack fromLookup props))) = securityGroupsOf (constructs (AwsEfsCreatorStack fromLookup props))
       \<and> length (securityGroupsOf (constructs (AwsEfsCreatorStack fromLookup props))) = 1
       \<and> map (Inr \<circ> fs_performanceMode) (fileSystemsOf (constructs (AwsEfsCreatorStack fromLookup props))) =
           [parsePerformanceMode (performanceMode props)]
       \<and> map (Inr \<circ> fs_throughputMode) (fileSystemsOf (constructs (AwsEfsCreatorStack fromLookup props))) =
           [parseThroughputMode (throughputMode props)]
       \<and> map fs_removalPolicy (fileSystemsOf (constructs (AwsEfsCreatorStack fromLookup props))) =
           [if deployEnvironment props = ''production'' then RETAIN else DESTROY]
       \<and> map lifecyclePolicy (fileSystemsOf (constructs (AwsEfsCreatorStack fromLookup props))) = [AFTER_90_DAYS]"
proof -
  from assms obtain h pm tm where ok:
    "fromLookup (vpcId props) = Inr h"
    "parsePerformanceMode (performanceMode props) = Inr pm"
    "parseThroughputMode (throughputMode props) = Inr tm"
    by (rule stack_success)
  from ok show ?thesis
    by (simp add: stack_defs)
qed

theorem storage_resource_properties_witness:
  "map encrypted (fileSystemsOf (constructs (AwsEfsCreatorStack resolveAll acmeProduction))) = [True]
   \<and> map allowAnonymousAccess (fileSystemsOf (constructs (AwsEfsCreatorStack resolveAll acmeProduction))) = [False]
   \<and> map fs_performanceMode (fileSystemsOf (constructs (AwsEfsCreatorStack resolveAll acmeProduction))) = [GENERAL_PURPOSE]
   \<and> map fs_throughputMode (fileSystemsOf (constructs (AwsEfsCreatorStack resolveAll acmeProduction))) = [BURSTING]
   \<and> map fs_removalPolicy (fileSystemsOf (constructs (AwsEfsCreatorStack resolveAll acmeProduction))) = [RETAIN]
   \<and> map lifecyclePolicy (fileSystemsOf (constructs (AwsEfsCreatorStack resolveAll acmeProduction))) = [AFTER_90_DAYS]"
proof -
  note t = storage_resource_properties [OF acme_assembles(1)]
  from t obtain f where f: "fileSystemsOf (constructs (AwsEfsCreatorStack resolveAll acmeProduction)) = [f]"
    by (cases "fileSystemsOf (constructs (AwsEfsCreatorStack resolveAll acmeProduction))") auto
  from t f show ?thesis
    by (simp add: acmeProduction_def parsePerformanceMode_def parseThroughputMode_def)
qed

text \<open>
  C4, as the claim states it: exactly one access policy statement is attached to the
  storage resource. In the stack assembled for the prefix \<open>acme-production\<close> the policy of
  the file system does not have one statement: beside the constructor's statement there is
  the one the engine adds because anonymous access is disallowed.
\<close>

theorem policy_not_single_statement:
  "map (size \<circ> resourcePolicy) (fileSystemsOf (constructs (AwsEfsCreatorStack resolveAll acmeProduction))) \<noteq> [1]"
  by (simp add: stack_defs resolveAll_def acmeProduction_def
      parsePerformanceMode_def parseThroughputMode_def)

text \<open>
  C4, amended. On every run of the constructor, the policy of each file system it declares
  holds exactly two statements, and when the constructor returns there is one such file
  system. One statement is the constructor's own and is the only one that names the mount
  action: it allows \<open>elasticfilesystem:ClientMount\<close> to any principal under the single
  boolean condition that \<open>elasticfilesystem:AccessedViaMountTarget\<close> is the literal \<open>true\<close>.
  The other is the engine's, added because anonymous access is disallowed: it allows
  \<open>elasticfilesystem:ClientWrite\<close> and \<open>elasticfilesystem:ClientRootAccess\<close> to any principal
  under the same condition. Neither statement sets an effect, the engine's default being
  allow.
\<close>

theorem mount_policy_statement:
  "set (map resourcePolicy (fileSystemsOf (constructs (AwsEfsCreatorStack fromLookup props)))) \<subseteq>
     {{#\<lparr>actions = [''elasticfilesystem:ClientMount''],
         principals = [AnyPrincipal],
         conditions =
           [(''Bool'', ''elasticfilesystem:AccessedViaMountTarget'', ''true'')]\<rparr>,
       \<lparr>actions = [''elasticfilesystem:ClientWrite'', ''elasticfilesystem:ClientRootAccess''],
         principals = [AnyPrincipal],
         conditions =
           [(''Bool'', ''elasticfilesystem:AccessedViaMountTarget'', ''true'')]\<rparr>#}}
   \<and> (thrown (AwsEfsCreatorStack fromLookup props) = None \<longrightarrow>
        map resourcePolicy (fileSystemsOf (constructs (AwsEfsCreatorStack fromLookup props))) =
          [{#\<lparr>actions = [''elasticfilesystem:ClientMount''],
              principals = [AnyPrincipal],
              conditions =
                [(''Bool'', ''elasticfilesystem:AccessedViaMountTarget'', ''true'')]\<rparr>,
            \<lparr>actions = [''elasticfilesystem:ClientWrite'', ''elasticfilesystem:ClientRootAccess''],
              principals = [AnyPrincipal],
              conditions =
                [(''Bool'', ''elasticfilesystem:AccessedViaMountTarget'', ''true'')]\<rparr>#}])"
proof (cases "fromLookup (vpcId props)")
  case (Inl e)
  then show ?thesis
    by (simp add: stack_defs)
next
  case h: (Inr h)
  show ?thesis
  proof (cases "parsePerformanceMode (performanceMode props)")
    case (Inl e)
    with h show ?thesis
      by (simp add: stack_defs anonymousAccessStatement_def)
  next
    case pm: (Inr pm)
    show ?thesis
    proof (cases "parseThroughputMode (throughputMode props)")
      case (Inl e)
      with h pm show ?thesis
        by (simp add: stack_defs anonymousAccessStatement_def)
    next
      case (Inr tm)
      with h pm show ?thesis
        by (simp add: stack_defs anonymousAccessStatement_def)
    qed
  qed
qed

theorem mount_policy_statement_witness:
  "map (size \<circ> resourcePolicy) (fileSystemsOf (constructs (AwsEfsCreatorStack resolveAll acmeProduction))) = [2]
   \<and> map (image_mset conditions \<circ> resourcePolicy) (fileSystemsOf (constructs (AwsEfsCreatorStack resolveAll acmeProduction))) =
       [{#[(''Bool'', ''elasticfilesystem:AccessedViaMountTarget'', ''true'')],
          [(''Bool'', ''elasticfilesystem:AccessedViaMountTarget'', ''true'')]#}]
   \<and> map (image_mset actions \<circ> resourcePolicy) (fileSystemsOf (constructs (AwsEfsCreatorStack resolveAll acmeProduction))) =
       [{#[''elasticfilesystem:ClientMount''],
          [''elasticfilesystem:ClientWrite'', ''elasticfilesystem:ClientRootAccess'']#}]"
proof -
  let ?fs = "fileSystemsOf (constructs (AwsEfsCreatorStack resolveAll acmeProduction))"
  from mount_policy_statement [of resolveAll acmeProduction] acme_assembles(1)
  have t: "map resourcePolicy ?fs =
      [{#\<lparr>actions = [''elasticfilesystem:ClientMount''],
          principals = [AnyPrincipal],
          conditions =
            [(''Bool'', ''elasticfilesystem:AccessedViaMountTarget'', ''true'')]\<rparr>,
        \<lparr>actions = [''elasticfilesystem:ClientWrite'', ''elasticfilesystem:ClientRootAccess''],
          principals = [AnyPrincipal],
          conditions =
            [(''Bool'', ''elasticfilesystem:AccessedViaMountTarget'', ''true'')]\<rparr>#}]"
    by simp
  then obtain f where f: "?fs = [f]"
    by (cases ?fs) auto
  from t f show ?thesis
    by simp
qed

text \<open>
  C5. Whenever the constructor returns, exactly two outputs are published, in this order:
  the identifier of the declared security group under the export name
  \<open><resourcePrefix>-efsSG\<close>, and the identifier of the declared file system under the export
  name \<open><resourcePrefix>-efsFileSystemId\<close>, each with its description.
\<close>

theorem published_outputs:
  assumes "thrown (AwsEfsCreatorStack fromLookup props) = None"
  shows "length (outputsOf (constructs (AwsEfsCreatorStack fromLookup props))) = 2
       \<and> map exportName (outputsOf (constructs (AwsEfsCreatorStack fromLookup props))) =
           [resourcePrefix props @ ''-efsSG'', resourcePrefix props @ ''-efsFileSystemId'']
       \<and> map out_value (outputsOf (constructs (AwsEfsCreatorStack fromLookup props))) =
           map (SecurityGroupId \<circ> sg_id) (securityGroupsOf (constructs (AwsEfsCreatorStack fromLookup props)))
             @ map (FileSystemId \<circ> fs_id) (fileSystemsOf (constructs (AwsEfsCreatorStack fromLookup props)))
       \<and> length (securityGroupsOf (constructs (AwsEfsCreatorStack fromLookup props))) = 1
       \<and> length (fileSystemsOf (constructs (AwsEfsCreatorStack fromLookup props))) = 1
       \<and> map description (outputsOf (constructs (AwsEfsCreatorStack fromLookup props))) =
           [''The security group id for the EFS file system.'',
            ''The file system id for the EFS file system.'']"
proof -
  from assms obtain h pm tm where ok:
    "fromLookup (vpcId props) = Inr h"
    "parsePerformanceMode (performanceMode props) = Inr pm"
    "parseThroughputMode (throughputMode props) = Inr tm"
    by (rule stack_success)
  from ok show ?thesis
    by (simp add: stack_defs)
qed

theorem published_outputs_witness:
  "length (outputsOf (constructs (AwsEfsCreatorStack resolveAll acmeProduction))) = 2
   \<and> map exportName (outputsOf (constructs (AwsEfsCreatorStack resolveAll acmeProduction))) =
       [''acme-production-efsSG'', ''acme-production-efsFileSystemId'']"
  using published_outputs [OF acme_assembles(1)]
  by (simp add: acmeProduction_def)

text \<open>
  C8, as the claim states it: every construct of the assembled tree is declared under an
  identifier that begins with the resource prefix. In the tree assembled for the prefix
  \<open>acme-production\<close> this fails: the two outputs are declared under \<open>efsSG\<close> and
  \<open>efsFileSystemId\<close>. In the tree assembled for the prefix \<open>acme/production\<close> it fails for
  the network lookup as well, which is declared under \<open>acme--production-VPC\<close>.
\<close>

theorem output_ids_not_prefixed:
  "\<not> list_all (prefix (resourcePrefix acmeProduction)) (map constructId (constructs (AwsEfsCreatorStack resolveAll acmeProduction)))
   \<and> \<not> list_all (prefix (resourcePrefix acmeSlash)) (map vpc_id (vpcLookupsOf (constructs (AwsEfsCreatorStack resolveAll acmeSlash))))"
  by (simp add: stack_defs resolveAll_def acmeProduction_def acmeSlash_def
      parsePerformanceMode_def parseThroughputMode_def sanitizeId_def)

text \<open>
  C8, amended. For every configuration, on every run of the constructor, the network
  lookup, the security group and the file system it declares are declared under the
  identifiers \<open><resourcePrefix>-VPC\<close>, \<open><resourcePrefix>-efsSG\<close> and
  \<open><resourcePrefix>-efsFileSystem\<close> with every \<open>/\<close> rewritten to \<open>--\<close>, so that they begin
  with the rewritten prefix, and with the resource prefix itself whenever it holds no
  \<open>/\<close>; the outputs are declared under the fixed identifiers \<open>efsSG\<close> and
  \<open>efsFileSystemId\<close>, and it is their export names that begin with the resource prefix.
  When the constructor returns, these five are the constructs declared.
\<close>

theorem prefix_namespacing:
  "list_all (prefix (sanitizeId (resourcePrefix props)))
     (map vpc_id (vpcLookupsOf (constructs (AwsEfsCreatorStack fromLookup props))) @ map sg_id (securityGroupsOf (constructs (AwsEfsCreatorStack fromLookup props)))
        @ map fs_id (fileSystemsOf (constructs (AwsEfsCreatorStack fromLookup props))))
   \<and> (CHR ''/'' \<notin> set (resourcePrefix props) \<longrightarrow>
        list_all (prefix (resourcePrefix props))
          (map vpc_id (vpcLookupsOf (constructs (AwsEfsCreatorStack fromLookup props))) @ map sg_id (securityGroupsOf (constructs (AwsEfsCreatorStack fromLookup props)))
             @ map fs_id (fileSystemsOf (constructs (AwsEfsCreatorStack fromLookup props)))))
   \<and> list_all (prefix (resourcePrefix props)) (map exportName (outputsOf (constructs (AwsEfsCreatorStack fromLookup props))))
   \<and> set (map out_id (outputsOf (constructs (AwsEfsCreatorStack fromLookup props)))) \<subseteq> {''efsSG'', ''efsFileSystemId''}
   \<and> (thrown (AwsEfsCreatorStack fromLookup props) = None \<longrightarrow>
        map constructId (constructs (AwsEfsCreatorStack fromLookup props)) =
          [sanitizeId (resourcePrefix props @ ''-VPC''),
           sanitizeId (resourcePrefix props @ ''-efsSG''),
           sanitizeId (resourcePrefix props @ ''-efsFileSystem''),
           ''efsSG'', ''efsFileSystemId''])"
proof (cases "fromLookup (vpcId props)")
  case (Inl e)
  then show ?thesis
    by (simp add: stack_defs)
next
  case h: (Inr h)
  show ?thesis
  proof (cases "parsePerformanceMode (performanceMode props)")
    case (Inl e)
    with h show ?thesis
      by (simp add: stack_defs sanitizeId_no_separator)
  next
    case pm: (Inr pm)
    show ?thesis
    proof (cases "parseThroughputMode (throughputMode props)")
      case (Inl e)
      with h pm show ?thesis
        by (simp add: stack_defs sanitizeId_no_separator)
    next
      case (Inr tm)
      with h pm show ?thesis
        by (simp add: stack_defs sanitizeId_no_separator)
    qed
  qed
qed

theorem prefix_namespacing_witness:
  "map constructId (constructs (AwsEfsCreatorStack resolveAll acmeProduction)) =
     [''acme-production-VPC'', ''acme-production-efsSG'', ''acme-production-efsFileSystem'',
      ''efsSG'', ''efsFileSystemId'']
   \<and> list_all (prefix ''acme-production'')
       (map vpc_id (vpcLookupsOf (constructs (AwsEfsCreatorStack resolveAll acmeProduction))) @ map sg_id (securityGroupsOf (constructs (AwsEfsCreatorStack resolveAll acmeProduction)))
          @ map fs_id (fileSystemsOf (constructs (AwsEfsCreatorStack resolveAll acmeProduction))))
   \<and> list_all (prefix ''acme--production'')
       (map vpc_id (vpcLookupsOf (constructs (AwsEfsCreatorStack resolveAll acmeSlash))) @ map sg_id (securityGroupsOf (constructs (AwsEfsCreatorStack resolveAll acmeSlash)))
          @ map fs_id (fileSystemsOf (constructs (AwsEfsCreatorStack resolveAll acmeSlash))))"
proof -
  have p: "resourcePrefix acmeProduction = ''acme-production''"
    and q: "sanitizeId (resourcePrefix acmeSlash) = ''acme--production''"
    by (simp_all add: acmeProduction_def acmeSlash_def sanitizeId_def)
  have n: "CHR ''/'' \<notin> set (resourcePrefix acmeProduction)"
    by (simp add: acmeProduction_def)
  from prefix_namespacing [of acmeProduction resolveAll] acme_assembles(1) n
    prefix_namespacing [of acmeSlash resolveAll]
  show ?thesis
    by (simp add: p q sanitizeId_append sanitizeId_literals sanitizeId_no_separator)
qed

text \<open>
  C9. For every configuration whose network the engine resolves, the constructor declares
  one security group, whether or not it goes on to return: the group's network is the
  looked-up network of the configured identifier, it permits all outbound traffic, its
  name is \<open><resourcePrefix>-efsSG\<close>, and the constructor itself has applied to it the removal
  policy computed from the deployment environment. No aspect takes part in this.
\<close>

theorem security_group_properties:
  assumes "fromLookup (vpcId props) = Inr h"
  shows "vpcLookupsOf (constructs (AwsEfsCreatorStack fromLookup props)) =
           [\<lparr>vpc_id = sanitizeId (resourcePrefix props @ ''-VPC''), vpc_vpcId = vpcId props,
             vpc_handle = h\<rparr>]
       \<and> map sg_vpc (securityGroupsOf (constructs (AwsEfsCreatorStack fromLookup props))) = vpcLookupsOf (constructs (AwsEfsCreatorStack fromLookup props))
       \<and> map allowAllOutbound (securityGroupsOf (constructs (AwsEfsCreatorStack fromLookup props))) = [True]
       \<and> map securityGroupName (securityGroupsOf (constructs (AwsEfsCreatorStack fromLookup props))) = [resourcePrefix props @ ''-efsSG'']
       \<and> map sg_removalPolicy (securityGroupsOf (constructs (AwsEfsCreatorStack fromLookup props))) =
           [Some (if deployEnvironment props = ''production'' then RETAIN else DESTROY)]"
proof (cases "parsePerformanceMode (performanceMode props)")
  case (Inl e)
  with assms show ?thesis
    by (simp add: stack_defs)
next
  case pm: (Inr pm)
  show ?thesis
  proof (cases "parseThroughputMode (throughputMode props)")
    case (Inl e)
    with assms pm show ?thesis
      by (simp add: stack_defs)
  next
    case (Inr tm)
    with assms pm show ?thesis
      by (simp add: stack_defs)
  qed
qed

theorem security_group_properties_witness:
  "map vpc_vpcId (vpcLookupsOf (constructs (AwsEfsCreatorStack resolveAll acmeProduction))) = [''vpc-123'']
   \<and> map allowAllOutbound (securityGroupsOf (constructs (AwsEfsCreatorStack resolveAll acmeProduction))) = [True]
   \<and> map securityGroupName (securityGroupsOf (constructs (AwsEfsCreatorStack resolveAll acmeProduction))) = [''acme-production-efsSG'']
   \<and> map sg_removalPolicy (securityGroupsOf (constructs (AwsEfsCreatorStack resolveAll acmeProduction))) = [Some RETAIN]
   \<and> thrown (AwsEfsCreatorStack resolveAll acmeTurbo) =
       Some (InvalidModeError ''turbo'' [''generalPurpose'', ''maxIO''])
   \<and> map securityGroupName (securityGroupsOf (constructs (AwsEfsCreatorStack resolveAll acmeTurbo))) = [''acme-production-efsSG'']
   \<and> map sg_removalPolicy (securityGroupsOf (constructs (AwsEfsCreatorStack resolveAll acmeTurbo))) = [Some RETAIN]"
proof -
  have "thrown (AwsEfsCreatorStack resolveAll acmeTurbo) =
      Some (InvalidModeError ''turbo'' [''generalPurpose'', ''maxIO''])"
    by (simp add: stack_defs resolveAll_def acmeTurbo_def acmeProduction_def
        parsePerformanceMode_def performanceModeNames_def)
  with security_group_properties [of resolveAll acmeProduction, OF acme_resolves(1)]
    security_group_properties [of resolveAll acmeTurbo, OF acme_resolves(2)]
  show ?thesis
    by (simp add: acmeProduction_def acmeTurbo_def)
qed

section \<open>Properties of the mode parsers\<close>

text \<open>
  C6. Each parser compares the raw string exactly with the literals of its enumeration:
  it returns a member for that member's literal and for no other string, and for every
  string that is not an accepted literal it fails with an \<open>InvalidModeError\<close> carrying that
  string and the accepted literals.
\<close>

theorem mode_parsers_exact:
  "(parsePerformanceMode raw = Inr GENERAL_PURPOSE \<longleftrightarrow> raw = ''generalPurpose'')
   \<and> (parsePerformanceMode raw = Inr MAX_IO \<longleftrightarrow> raw = ''maxIO'')
   \<and> (raw \<notin> set performanceModeNames \<longrightarrow>
        parsePerformanceMode raw = Inl (InvalidModeError raw performanceModeNames))
   \<and> (parseThroughputMode raw = Inr BURSTING \<longleftrightarrow> raw = ''bursting'')
   \<and> (parseThroughputMode raw = Inr PROVISIONED \<longleftrightarrow> raw = ''provisioned'')
   \<and> (raw \<notin> set throughputModeNames \<longrightarrow>
        parseThroughputMode raw = Inl (InvalidModeError raw throughputModeNames))"
  by (simp add: parsePerformanceMode_def parseThroughputMode_def performanceModeNames_def
      throughputModeNames_def)

theorem mode_parsers_exact_witness:
  "parsePerformanceMode ''maxIO'' = Inr MAX_IO
   \<and> parsePerformanceMode ''turbo'' =
       Inl (InvalidModeError ''turbo'' [''generalPurpose'', ''maxIO''])
   \<and> parsePerformanceMode ''MAXIO'' =
       Inl (InvalidModeError ''MAXIO'' [''generalPurpose'', ''maxIO''])
   \<and> parseThroughputMode ''bursting'' = Inr BURSTING
   \<and> parseThroughputMode ''Bursting'' =
       Inl (InvalidModeError ''Bursting'' [''bursting'', ''provisioned''])"
  using mode_parsers_exact [of "''maxIO''"] mode_parsers_exact [of "''turbo''"]
    mode_parsers_exact [of "''MAXIO''"] mode_parsers_exact [of "''bursting''"]
    mode_parsers_exact [of "''Bursting''"]
  by (simp add: performanceModeNames_def throughputModeNames_def)

section \<open>Properties of the tag aspect\<close>

lemma applyTag_twice:
  "fold applyTag (tagEntries ts) (fold applyTag (tagEntries ts) labels) =
     fold applyTag (tagEntries ts) labels"
  by (rule ext) (simp add: tagEntries_def applyTag_def)

text \<open>
  C7. Tag application is idempotent: visiting a node twice with the same tag set leaves
  the labels that one visit leaves, on a single node and on every node of a tree; a node
  that does not support tagging is left as it is, and the visit does not fail.
\<close>

theorem tag_application_idempotent:
  "visit ts (visit ts node) = visit ts node
   \<and> visit ts NotTaggable = NotTaggable
   \<and> applyAspect ts (applyAspect ts nodes) = applyAspect ts nodes"
proof -
  have one: "visit ts (visit ts n) = visit ts n" for n
    by (cases n) (simp_all add: visit_def applyTag_twice)
  have "visit ts NotTaggable = NotTaggable"
    by (simp add: visit_def)
  with one show ?thesis
    by (simp add: applyAspect_def)
qed

theorem tag_application_idempotent_witness:
  "visit \<lparr>environment = ''production'', project = ''X'', owner = ''Y''\<rparr>
     (visit \<lparr>environment = ''production'', project = ''X'', owner = ''Y''\<rparr>
        (Taggable Map.empty)) =
   Taggable [''environment'' \<mapsto> ''production'', ''project'' \<mapsto> ''X'', ''owner'' \<mapsto> ''Y'']"
proof -
  have "visit \<lparr>environment = ''production'', project = ''X'', owner = ''Y''\<rparr>
          (Taggable Map.empty) =
        Taggable [''environment'' \<mapsto> ''production'', ''project'' \<mapsto> ''X'', ''owner'' \<mapsto> ''Y'']"
    by (simp add: visit_def tagEntries_def applyTag_def)
  with tag_application_idempotent
    [of "\<lparr>environment = ''production'', project = ''X'', owner = ''Y''\<rparr>" "Taggable Map.empty"]
  show ?thesis
    by simp
qed

section \<open>The resource prefix\<close>

text \<open>
  C10. Whenever the entry point instantiates the stack, APP_NAME is set and the resource
  prefix it passes is the template literal of APP_NAME, a hyphen and ENVIRONMENT: the
  APP_NAME value, a hyphen, and the ENVIRONMENT value. Every stack assembled under that
  prefix has its export names, its security group name and its file system name determined
  by those two inputs.
\<close>

theorem resource_prefix_from_environment:
  assumes "main env = Inr app"
  shows "env ''APP_NAME'' \<noteq> None
       \<and> map (arg_resourcePrefix \<circ> snd) (stacks app) =
           [templateString (env ''APP_NAME'') @ ''-'' @ templateString (env ''ENVIRONMENT'')]
       \<and> (\<forall>fromLookup props.
             resourcePrefix props =
               templateString (env ''APP_NAME'') @ ''-'' @ templateString (env ''ENVIRONMENT'')
             \<and> thrown (AwsEfsCreatorStack fromLookup props) = None \<longrightarrow>
             map exportName (outputsOf (constructs (AwsEfsCreatorStack fromLookup props))) =
               [(templateString (env ''APP_NAME'') @ ''-'' @ templateString (env ''ENVIRONMENT''))
                  @ ''-efsSG'',
                (templateString (env ''APP_NAME'') @ ''-'' @ templateString (env ''ENVIRONMENT''))
                  @ ''-efsFileSystemId'']
             \<and> map securityGroupName (securityGroupsOf (constructs (AwsEfsCreatorStack fromLookup props))) =
               [(templateString (env ''APP_NAME'') @ ''-'' @ templateString (env ''ENVIRONMENT''))
                  @ ''-efsSG'']
             \<and> map fileSystemName (fileSystemsOf (constructs (AwsEfsCreatorStack fromLookup props))) =
               [(templateString (env ''APP_NAME'') @ ''-'' @ templateString (env ''ENVIRONMENT''))
                  @ ''-efsFileSystem''])"
proof -
  have chk: "checkEnvVariables env [''APP_NAME'', ''OWNER'', ''VPC_ID''] = Inr ()"
    using assms
    by (cases "checkEnvVariables env [''APP_NAME'', ''OWNER'', ''VPC_ID'']")
      (simp_all add: main_def Let_def)
  then have a: "env ''APP_NAME'' \<noteq> None"
    unfolding checkEnvVariables_ok by auto
  from assms chk have p: "map (arg_resourcePrefix \<circ> snd) (stacks app) =
      [templateString (env ''APP_NAME'') @ ''-'' @ templateString (env ''ENVIRONMENT'')]"
    by (auto simp: main_def Let_def)
  have n: "map exportName (outputsOf (constructs (AwsEfsCreatorStack fromLookup props))) = [pfx @ ''-efsSG'', pfx @ ''-efsFileSystemId'']
         \<and> map securityGroupName (securityGroupsOf (constructs (AwsEfsCreatorStack fromLookup props))) = [pfx @ ''-efsSG'']
         \<and> map fileSystemName (fileSystemsOf (constructs (AwsEfsCreatorStack fromLookup props))) = [pfx @ ''-efsFileSystem'']"
    if "resourcePrefix props = pfx" "thrown (AwsEfsCreatorStack fromLookup props) = None"
    for fromLookup props pfx
    using stack_names [OF that(2)] that(1) by simp
  from a p n show ?thesis
    by blast
qed

theorem resource_prefix_from_environment_witness:
  "\<exists>app. main acmeEnv = Inr app
     \<and> map (arg_resourcePrefix \<circ> snd) (stacks app) = [''acme-production'']
     \<and> map exportName (outputsOf (constructs (AwsEfsCreatorStack resolveAll acmeProduction))) =
         [''acme-production-efsSG'', ''acme-production-efsFileSystemId'']"
proof -
  obtain app where m: "main acmeEnv = Inr app"
    by (simp add: main_def Let_def acmeEnv_def)
  note t = resource_prefix_from_environment [OF m]
  have a: "templateString (acmeEnv ''APP_NAME'') = ''acme''"
    and e: "templateString (acmeEnv ''ENVIRONMENT'') = ''production''"
    by (simp_all add: acmeEnv_def templateString_def)
  have r: "resourcePrefix acmeProduction =
      templateString (acmeEnv ''APP_NAME'') @ ''-'' @ templateString (acmeEnv ''ENVIRONMENT'')"
    by (simp add: a e acmeProduction_def)
  from t have p: "map (arg_resourcePrefix \<circ> snd) (stacks app) = [''acme-production'']"
    by (simp add: a e)
  from t r acme_assembles(1)
  have "map exportName (outputsOf (constructs (AwsEfsCreatorStack resolveAll acmeProduction))) =
      [(templateString (acmeEnv ''APP_NAME'') @ ''-'' @ templateString (acmeEnv ''ENVIRONMENT''))
         @ ''-efsSG'',
       (templateString (acmeEnv ''APP_NAME'') @ ''-'' @ templateString (acmeEnv ''ENVIRONMENT''))
         @ ''-efsFileSystemId'']"
    by blast
  then have x: "map exportName (outputsOf (constructs (AwsEfsCreatorStack resolveAll acmeProduction))) =
      [''acme-production-efsSG'', ''acme-production-efsFileSystemId'']"
    by (simp add: a e)
  show ?thesis
    by (rule exI [of _ app]) (simp add: m p x)
qed

end
